theory Spec2Isabelle
  imports Complex_Main "HOL-Library.Char_ord" "HOL-Library.List_Lexorder"
begin

section \<open>Numbers and the parameter registry\<close>

text \<open>
  A JavaScript number is an IEEE double: a finite value, NaN or one of the two infinities.
  The finite values are carried as the rational they denote; the program only compares
  them and tests them for finiteness, it never computes with them.
\<close>

datatype jsnum = Fin rat | NaN | PosInf | NegInf

fun isFinite :: "jsnum \<Rightarrow> bool" where
  "isFinite (Fin _) = True"
| "isFinite _ = False"

text \<open>The relational operator \<open><\<close> on numbers: every comparison with NaN is false.\<close>

fun jslt :: "jsnum \<Rightarrow> jsnum \<Rightarrow> bool" where
  "jslt NaN _ = False"
| "jslt _ NaN = False"
| "jslt (Fin a) (Fin b) = (a < b)"
| "jslt (Fin _) PosInf = True"
| "jslt (Fin _) NegInf = False"
| "jslt PosInf _ = False"
| "jslt NegInf NegInf = False"
| "jslt NegInf _ = True"

datatype ParamKey = temp | ph | gh | kh | no2 | no3 | tds | cond

definition ALL_PARAM_KEYS :: "ParamKey list" where
  "ALL_PARAM_KEYS = [temp, ph, gh, kh, no2, no3, tds, cond]"

type_synonym WaterParams = "ParamKey \<Rightarrow> bool"

definition makeAllParams :: "bool \<Rightarrow> WaterParams" where
  "makeAllParams enabled = foldl (\<lambda>acc k. acc(k := enabled)) (\<lambda>_. False) ALL_PARAM_KEYS"

record Limits =
  lim_min :: "jsnum option"
  lim_max :: "jsnum option"

type_synonym WaterLimits = "ParamKey \<Rightarrow> Limits"

definition makeDefaultLimits :: WaterLimits where
  "makeDefaultLimits =
     foldl (\<lambda>acc k. acc(k := \<lparr>lim_min = None, lim_max = None\<rparr>))
       (\<lambda>_. \<lparr>lim_min = None, lim_max = None\<rparr>) ALL_PARAM_KEYS"

datatype RangeStatus = na | low | high | ok

text \<open>\<open>inRange\<close>: \<open>value == null\<close> is the absent value, \<open>lim.min != null\<close> a configured bound.\<close>

definition inRange :: "jsnum option \<Rightarrow> Limits \<Rightarrow> RangeStatus" where
  "inRange v l =
     (case v of
        None \<Rightarrow> na
      | Some x \<Rightarrow>
          if lim_min l \<noteq> None \<and> jslt x (the (lim_min l)) then low
          else if lim_max l \<noteq> None \<and> jslt (the (lim_max l)) x then high
          else ok)"

section \<open>The document\<close>

text \<open>
  The types of the source, one record each. Field names are prefixed with the name of their
  type (\<open>tank_id\<close> for \<open>Tank.id\<close>, \<open>lim_min\<close> for the \<open>min\<close> of a limit), and the
  \<open>log\<close> of the document is \<open>logE\<close>.
\<close>

record Tank =
  tank_id :: string
  tank_name :: string
  tank_volumeL :: jsnum
  tank_location :: string
  tank_purpose :: string
  tank_active :: bool
  tank_waterParams :: WaterParams

record Line =
  line_id :: string
  line_name :: string
  line_code :: string
  line_traits :: "string list"
  line_notes :: string
  line_archived :: bool

record Attempt =
  attempt_id :: string
  attempt_name :: string
  attempt_lineId :: string
  attempt_tankIds :: "string list"
  attempt_startDate :: string
  attempt_endDate :: string
  attempt_goal :: string
  attempt_notes :: string
  attempt_active :: bool
  attempt_archived :: bool

record Group =
  group_id :: string
  group_attemptId :: string
  group_name :: string
  group_tankId :: string
  group_maleCount :: jsnum
  group_femaleCount :: jsnum
  group_notes :: string
  group_active :: bool
  group_archived :: bool

text \<open>
  A water entry carries, for each parameter key, nothing (the key is absent), \<open>null\<close>
  (\<open>Some None\<close>) or a number.
\<close>

record WaterEntry =
  water_id :: string
  water_tankId :: string
  water_date :: string
  water_note :: string
  water_values :: "ParamKey \<rightharpoonup> jsnum option"

datatype LogKind = Futter | Pflege | Wurf | Beobachtung | Sonstiges

record LogEntry =
  log_id :: string
  log_attemptId :: string
  log_tankId :: string
  log_date :: string
  log_kind :: LogKind
  log_title :: string
  log_notes :: string

record Settings =
  breederName :: string
  maxPhotoMB :: jsnum
  waterLimits :: WaterLimits

record AppState =
  settings :: Settings
  tanks :: "Tank list"
  lines :: "Line list"
  attempts :: "Attempt list"
  groups :: "Group list"
  water :: "WaterEntry list"
  logE :: "LogEntry list"

section \<open>Mutations of the store\<close>

text \<open>
  Each mutation is the function handed to \<open>setState\<close>: from the current document to the
  next one. The object spread \<open>{ ...t, ...tank }\<close> starts from \<open>t\<close> and overwrites every
  field that \<open>tank\<close> carries.
\<close>

definition mergeTank :: "Tank \<Rightarrow> Tank \<Rightarrow> Tank" where
  "mergeTank t tank =
     t\<lparr>tank_id := tank_id tank, tank_name := tank_name tank,
       tank_volumeL := tank_volumeL tank, tank_location := tank_location tank,
       tank_purpose := tank_purpose tank, tank_active := tank_active tank,
       tank_waterParams := tank_waterParams tank\<rparr>"

definition upsertTank :: "Tank \<Rightarrow> AppState \<Rightarrow> AppState" where
  "upsertTank tank s =
     (let exists = list_ex (\<lambda>t. tank_id t = tank_id tank) (tanks s);
          tanks' = (if exists
                    then map (\<lambda>t. if tank_id t = tank_id tank then mergeTank t tank else t) (tanks s)
                    else tank # tanks s)
      in s\<lparr>tanks := tanks'\<rparr>)"

definition removeTank :: "string \<Rightarrow> AppState \<Rightarrow> AppState" where
  "removeTank i s =
     (let tanks' = filter (\<lambda>t. tank_id t \<noteq> i) (tanks s);
          attempts' = filter (\<lambda>a. length (attempt_tankIds a) > 0)
                        (map (\<lambda>a. a\<lparr>attempt_tankIds := filter (\<lambda>x. x \<noteq> i) (attempt_tankIds a)\<rparr>)
                           (attempts s));
          groups' = filter (\<lambda>g. group_tankId g \<noteq> i) (groups s);
          water' = filter (\<lambda>w. water_tankId w \<noteq> i) (water s);
          log' = filter (\<lambda>e. log_tankId e \<noteq> i) (logE s)
      in s\<lparr>tanks := tanks', attempts := attempts', groups := groups', water := water',
           logE := log'\<rparr>)"

definition mergeAttempt :: "Attempt \<Rightarrow> Attempt \<Rightarrow> Attempt" where
  "mergeAttempt x a =
     x\<lparr>attempt_id := attempt_id a, attempt_name := attempt_name a,
       attempt_lineId := attempt_lineId a, attempt_tankIds := attempt_tankIds a,
       attempt_startDate := attempt_startDate a, attempt_endDate := attempt_endDate a,
       attempt_goal := attempt_goal a, attempt_notes := attempt_notes a,
       attempt_active := attempt_active a, attempt_archived := attempt_archived a\<rparr>"

definition upsertAttempt :: "Attempt \<Rightarrow> AppState \<Rightarrow> AppState" where
  "upsertAttempt a s =
     (let exists = list_ex (\<lambda>x. attempt_id x = attempt_id a) (attempts s);
          attempts' = (if exists
                       then map (\<lambda>x. if attempt_id x = attempt_id a then mergeAttempt x a else x)
                              (attempts s)
                       else a # attempts s)
      in s\<lparr>attempts := attempts'\<rparr>)"

definition removeAttempt :: "string \<Rightarrow> AppState \<Rightarrow> AppState" where
  "removeAttempt i s =
     (let attempts' = filter (\<lambda>a. attempt_id a \<noteq> i) (attempts s);
          groups' = filter (\<lambda>g. group_attemptId g \<noteq> i) (groups s);
          log' = filter (\<lambda>e. log_attemptId e \<noteq> i) (logE s)
      in s\<lparr>attempts := attempts', groups := groups', logE := log'\<rparr>)"

definition upsertGroup :: "Group \<Rightarrow> AppState \<Rightarrow> AppState" where
  "upsertGroup g s = s\<lparr>groups := g # groups s\<rparr>"

text \<open>
  \<open>LinesTab\<close> decides between archiving and deleting a line by the number of attempts
  that reference it and are not archived.
\<close>

definition linkedCount :: "Attempt list \<Rightarrow> string \<Rightarrow> nat" where
  "linkedCount as i = length (filter (\<lambda>a. attempt_lineId a = i \<and> \<not> attempt_archived a) as)"

text \<open>
  Modelled from the spec: the store's \<open>removeLine\<close>. \<open>LinesTab\<close> declares it as a
  property and calls it from its remove button, but the main component defines no such
  mutation and never renders \<open>LinesTab\<close>. The spec: deleting a line that is referenced
  by at least one non-archived attempt sets \<open>archived = true\<close> instead of removing it; an
  unreferenced line is removed outright.
\<close>

definition removeLine :: "string \<Rightarrow> AppState \<Rightarrow> AppState" where
  "removeLine i s =
     (if linkedCount (attempts s) i > 0
      then s\<lparr>lines := map (\<lambda>l. if line_id l = i then l\<lparr>line_archived := True\<rparr> else l) (lines s)\<rparr>
      else s\<lparr>lines := filter (\<lambda>l. line_id l \<noteq> i) (lines s)\<rparr>)"

section \<open>The seed document\<close>

text \<open>
  \<open>seed\<close> draws ten identifiers from \<open>uid\<close> and two dates from the clock; here they
  are arguments: \<open>u k\<close> is the result of the \<open>k\<close>-th call of \<open>uid\<close>, \<open>d0\<close> and \<open>d1\<close>
  are the ISO dates of three weeks and of one week ago. Decimal literals stand for the
  decimal they spell; letters outside ASCII in the free texts are transliterated.
\<close>

definition seed :: "(nat \<Rightarrow> string) \<Rightarrow> string \<Rightarrow> string \<Rightarrow> AppState" where
  "seed u d0 d1 =
     (let tankA = \<lparr>tank_id = u 0, tank_name = ''Becken 01'', tank_volumeL = Fin 54,
                    tank_location = ''Wohnzimmer'', tank_purpose = ''Zucht'', tank_active = True,
                    tank_waterParams = (makeAllParams False)
                      (temp := True, ph := True, gh := True, kh := True, no2 := True, no3 := True)\<rparr>;
          tankB = \<lparr>tank_id = u 1, tank_name = ''Becken 02'', tank_volumeL = Fin 30,
                    tank_location = ''Regal'', tank_purpose = ''Aufzucht'', tank_active = True,
                    tank_waterParams = (makeAllParams False)
                      (temp := True, ph := True, no2 := True, no3 := True, tds := True, cond := True)\<rparr>;
          lineA = \<lparr>line_id = u 2, line_name = ''Endler - Japan Blue'', line_code = ''JB-01'',
                    line_traits = [''Japan Blue'', ''Endler''],
                    line_notes = ''Stamm stabil, kraeftige Blautoene.'', line_archived = False\<rparr>;
          attemptA = \<lparr>attempt_id = u 3, attempt_name = ''Ansatz 2025-01 (A)'',
                       attempt_lineId = line_id lineA,
                       attempt_tankIds = [tank_id tankA, tank_id tankB],
                       attempt_startDate = d0, attempt_endDate = [],
                       attempt_goal = ''Farbintensitaet & Flossenform'',
                       attempt_notes = ''Becken 01 Zucht, Becken 02 Aufzucht.'',
                       attempt_active = True, attempt_archived = False\<rparr>;
          gs = [\<lparr>group_id = u 4, group_attemptId = attempt_id attemptA, group_name = ''Zuchtgruppe'',
                  group_tankId = tank_id tankA, group_maleCount = Fin 2, group_femaleCount = Fin 5,
                  group_notes = ''Hauptgruppe'', group_active = True, group_archived = False\<rparr>,
                \<lparr>group_id = u 5, group_attemptId = attempt_id attemptA, group_name = ''Jungfische'',
                  group_tankId = tank_id tankB, group_maleCount = Fin 0, group_femaleCount = Fin 0,
                  group_notes = ''Batch 1'', group_active = True, group_archived = False\<rparr>];
          limits = makeDefaultLimits
                     (temp := \<lparr>lim_min = Some (Fin 22), lim_max = Some (Fin 28)\<rparr>,
                      ph := \<lparr>lim_min = Some (Fin (13 / 2)), lim_max = Some (Fin (39 / 5))\<rparr>,
                      no2 := \<lparr>lim_min = Some (Fin 0), lim_max = Some (Fin (1 / 10))\<rparr>,
                      no3 := \<lparr>lim_min = Some (Fin 0), lim_max = Some (Fin 30)\<rparr>);
          ws = [\<lparr>water_id = u 6, water_tankId = tank_id tankA, water_date = d1, water_note = [],
                  water_values = [temp \<mapsto> Some (Fin (126 / 5)), ph \<mapsto> Some (Fin (71 / 10)),
                                  gh \<mapsto> Some (Fin 10), kh \<mapsto> Some (Fin 6),
                                  no2 \<mapsto> Some (Fin 0), no3 \<mapsto> Some (Fin 12)]\<rparr>,
                \<lparr>water_id = u 7, water_tankId = tank_id tankB, water_date = d1, water_note = [],
                  water_values = [temp \<mapsto> Some (Fin 26), ph \<mapsto> Some (Fin 7),
                                  no2 \<mapsto> Some (Fin 0), no3 \<mapsto> Some (Fin 18),
                                  tds \<mapsto> Some (Fin 280), cond \<mapsto> Some (Fin 520)]\<rparr>];
          es = [\<lparr>log_id = u 8, log_attemptId = attempt_id attemptA, log_tankId = tank_id tankA,
                  log_date = d1, log_kind = Pflege, log_title = ''Wasserwechsel 30%'',
                  log_notes = ''leicht aufsalzen''\<rparr>,
                \<lparr>log_id = u 9, log_attemptId = attempt_id attemptA, log_tankId = [],
                  log_date = d1, log_kind = Beobachtung, log_title = ''Faerbung sichtbar'',
                  log_notes = ''erste blaue Flanken''\<rparr>]
      in \<lparr>settings = \<lparr>breederName = [], maxPhotoMB = Fin (3 / 2), waterLimits = limits\<rparr>,
          tanks = [tankA, tankB], lines = [lineA], attempts = [attemptA], groups = gs,
          water = ws, logE = es\<rparr>)"

text \<open>A run of \<open>seed\<close>: the identifiers \<open>id0\<close> to \<open>id9\<close> and two dates.\<close>

definition uidSample :: "nat \<Rightarrow> string" where
  "uidSample k =
     [''id0'', ''id1'', ''id2'', ''id3'', ''id4'', ''id5'', ''id6'', ''id7'', ''id8'', ''id9''] ! k"

definition seedSample :: AppState where
  "seedSample = seed uidSample ''2025-01-01'' ''2025-01-15''"

section \<open>Dashboard aggregates\<close>

definition activeAttempts :: "AppState \<Rightarrow> nat" where
  "activeAttempts s = length (filter (\<lambda>a. attempt_active a \<and> \<not> attempt_archived a) (attempts s))"

definition activeTanks :: "AppState \<Rightarrow> nat" where
  "activeTanks s = length (filter (\<lambda>t. tank_active t) (tanks s))"

text \<open>
  The comparator handed to \<open>sort\<close>. Dates are strings and \<open><\<close> on strings compares code
  units lexicographically. The comparator never returns 0: for two entries of the same date
  it answers \<open>-1\<close> whichever way round they are asked.
\<close>

definition logCmp :: "LogEntry \<Rightarrow> LogEntry \<Rightarrow> int" where
  "logCmp a b = (if log_date a < log_date b then 1 else - 1)"

text \<open>
  \<open>Array.prototype.sort\<close> belongs to the engine, and the language fixes the order it
  produces only for a consistent comparator; for any other the order is left to the
  implementation. So the engine's sort is an argument of \<open>lastLog\<close>. \<open>xs[0] || null\<close> is
  the first element, or \<open>null\<close> for the empty array.
\<close>

type_synonym 'a arraySort = "('a \<Rightarrow> 'a \<Rightarrow> int) \<Rightarrow> 'a list \<Rightarrow> 'a list"

definition lastLog :: "LogEntry arraySort \<Rightarrow> AppState \<Rightarrow> LogEntry option" where
  "lastLog srt s = (case srt logCmp (logE s) of [] \<Rightarrow> None | e # _ \<Rightarrow> Some e)"

text \<open>
  Two insertion sorts an engine may use. Both sort correctly under a consistent comparator.
  \<open>sortFromLeft\<close> takes the elements left to right and puts each in front of the first
  element it compares below, asking \<open>cmp new old\<close>; \<open>sortFromRight\<close> takes them right to
  left and puts each in front of the first element it does not compare above.
\<close>

fun insertBelow :: "('a \<Rightarrow> 'a \<Rightarrow> int) \<Rightarrow> 'a \<Rightarrow> 'a list \<Rightarrow> 'a list" where
  "insertBelow cmp x [] = [x]"
| "insertBelow cmp x (y # ys) = (if cmp x y < 0 then x # y # ys else y # insertBelow cmp x ys)"

definition sortFromLeft :: "'a arraySort" where
  "sortFromLeft cmp xs = foldl (\<lambda>acc x. insertBelow cmp x acc) [] xs"

fun insertNotAbove :: "('a \<Rightarrow> 'a \<Rightarrow> int) \<Rightarrow> 'a \<Rightarrow> 'a list \<Rightarrow> 'a list" where
  "insertNotAbove cmp x [] = [x]"
| "insertNotAbove cmp x (y # ys) = (if cmp x y \<le> 0 then x # y # ys else y # insertNotAbove cmp x ys)"

definition sortFromRight :: "'a arraySort" where
  "sortFromRight cmp xs = foldr (insertNotAbove cmp) xs []"

text \<open>
  The selection in the spec's words: the log sorted by date, descending, by a stable sort
  (entries of one date keep their order), and its first entry.
\<close>

fun insertStableDesc :: "LogEntry \<Rightarrow> LogEntry list \<Rightarrow> LogEntry list" where
  "insertStableDesc x [] = [x]"
| "insertStableDesc x (y # ys) =
     (if log_date x < log_date y then y # insertStableDesc x ys else x # y # ys)"

definition stableSortDesc :: "LogEntry list \<Rightarrow> LogEntry list" where
  "stableSortDesc xs = foldr insertStableDesc xs []"

definition mostRecentStable :: "AppState \<Rightarrow> LogEntry option" where
  "mostRecentStable s = (case stableSortDesc (logE s) of [] \<Rightarrow> None | e # _ \<Rightarrow> Some e)"

section \<open>Reading numbers from the forms\<close>

text \<open>
  Strings are lists of code units below 256. \<open>trim\<close> removes white space and line
  terminators from both ends; in this range they are tab, line feed, vertical tab, form
  feed, carriage return, space and the no-break space. \<open>replace(",", ".")\<close> with a string
  pattern replaces the first occurrence only.
\<close>

definition isWhiteSpace :: "char \<Rightarrow> bool" where
  "isWhiteSpace c = ((of_char c :: nat) \<in> {9, 10, 11, 12, 13, 32, 160})"

definition trim :: "string \<Rightarrow> string" where
  "trim s = rev (dropWhile isWhiteSpace (rev (dropWhile isWhiteSpace s)))"

fun replaceFirst :: "char \<Rightarrow> char \<Rightarrow> string \<Rightarrow> string" where
  "replaceFirst a b [] = []"
| "replaceFirst a b (c # cs) = (if c = a then b # cs else c # replaceFirst a b cs)"

text \<open>
  \<open>Number\<close> applied to a string is the engine's conversion to a double; it is the
  argument \<open>toNum\<close>.
\<close>

definition parseNumOrNull :: "(string \<Rightarrow> jsnum) \<Rightarrow> string \<Rightarrow> jsnum option" where
  "parseNumOrNull toNum s =
     (let t = replaceFirst CHR '','' CHR ''.'' (trim s)
      in if t = [] then None
         else (let n = toNum t in if isFinite n then Some n else None))"

text \<open>
  The parameters a tank shows (\<open>WaterTab\<close>): the enabled ones in registry order, or
  temperature alone when none is enabled; every parameter when no tank is selected.
\<close>

definition activeParams :: "Tank option \<Rightarrow> ParamKey list" where
  "activeParams tank =
     (let wp = (case tank of Some t \<Rightarrow> tank_waterParams t | None \<Rightarrow> makeAllParams True);
          list = filter wp ALL_PARAM_KEYS
      in if list = [] then [temp] else list)"

record WaterPayload =
  payload_tankId :: string
  payload_date :: string
  payload_note :: string
  payload_values :: "ParamKey \<rightharpoonup> jsnum option"

text \<open>
  The save button of the water form: \<open>vals\<close> holds the text typed for each parameter,
  \<open>today\<close> is the current date, used when the date field is empty.
\<close>

definition waterPayload ::
  "(string \<Rightarrow> jsnum) \<Rightarrow> ParamKey list \<Rightarrow> (ParamKey \<rightharpoonup> string) \<Rightarrow> string \<Rightarrow> string \<Rightarrow> string \<Rightarrow> string
     \<Rightarrow> WaterPayload" where
  "waterPayload toNum ps vals tankId date today note =
     \<lparr>payload_tankId = tankId,
      payload_date = (if date = [] then today else date),
      payload_note = note,
      payload_values =
        foldl (\<lambda>m k. m(k \<mapsto> parseNumOrNull toNum (case vals k of None \<Rightarrow> [] | Some v \<Rightarrow> v)))
          Map.empty ps\<rparr>"

definition addWater :: "WaterPayload \<Rightarrow> string \<Rightarrow> AppState \<Rightarrow> AppState" where
  "addWater entry newId s =
     s\<lparr>water := \<lparr>water_id = newId, water_tankId = payload_tankId entry,
                  water_date = payload_date entry, water_note = payload_note entry,
                  water_values = payload_values entry\<rparr> # water s\<rparr>"

section \<open>Loading the stored document\<close>

text \<open>
  What \<open>JSON.parse\<close> returns is a value without static type; \<open>Undefined\<close> is the result
  of reading a property that is not there. An object is the list of its properties.
\<close>

datatype jsval =
    Undefined
  | Null
  | Bool bool
  | Num jsnum
  | Str string
  | Arr "jsval list"
  | Obj "(string \<times> jsval) list"

datatype jserror = TypeError | SyntaxError | SecurityError

fun truthy :: "jsval \<Rightarrow> bool" where
  "truthy Undefined = False"
| "truthy Null = False"
| "truthy (Bool b) = b"
| "truthy (Num n) = (n \<noteq> Fin 0 \<and> n \<noteq> NaN)"
| "truthy (Str s) = (s \<noteq> [])"
| "truthy (Arr _) = True"
| "truthy (Obj _) = True"



fun typeofObject :: "jsval \<Rightarrow> bool" where
  "typeofObject Null = True"
| "typeofObject (Arr _) = True"
| "typeofObject (Obj _) = True"
| "typeofObject _ = False"


text \<open>
  An exception inside a computation ends it: \<open>bindE\<close> hands a result on, \<open>sequenceE\<close>
  collects the results of a list from left to right, up to the first exception.
\<close>

definition bindE :: "jserror + 'a \<Rightarrow> ('a \<Rightarrow> jserror + 'b) \<Rightarrow> jserror + 'b" where
  "bindE r f = (case r of Inl e \<Rightarrow> Inl e | Inr x \<Rightarrow> f x)"


fun joinE :: "(jserror + string) list \<Rightarrow> jserror + string" where
  "joinE [] = Inr []"
| "joinE [r] = r"
| "joinE (r # rs) = bindE r (\<lambda>s. bindE (joinE rs) (\<lambda>t. Inr (s @ '','' @ t)))"

text \<open>
  \<open>String(v)\<close>. A primitive value has its text; the text of a number is the engine's,
  the argument \<open>numStr\<close>. An array is the join of its elements by commas, \<open>null\<close> and
  \<open>undefined\<close> counting as empty. An object parsed from JSON holds no function: with a
  property \<open>toString\<close> of its own it has no callable \<open>toString\<close> and its \<open>valueOf\<close>
  yields no primitive, so the conversion throws a TypeError; without one it is
  \<open>[object Object]\<close>.
\<close>

fun jsString :: "(jsnum \<Rightarrow> string) \<Rightarrow> jsval \<Rightarrow> jserror + string" where
  "jsString numStr Undefined = Inr ''undefined''"
| "jsString numStr Null = Inr ''null''"
| "jsString numStr (Bool b) = Inr (if b then ''true'' else ''false'')"
| "jsString numStr (Num n) = Inr (numStr n)"
| "jsString numStr (Str s) = Inr s"
| "jsString numStr (Arr xs) =
     joinE (map (\<lambda>x. if x = Null \<or> x = Undefined then Inr [] else jsString numStr x) xs)"
| "jsString numStr (Obj kvs) =
     (if map_of kvs ''toString'' \<noteq> None then Inl TypeError else Inr ''[object Object]'')"

text \<open>
  \<open>Number(v)\<close>. On a string it is the engine's reading, the argument \<open>toNum\<close>; an array
  or an object is first brought to a primitive, which for values parsed from JSON is its
  string, and throws where that throws.
\<close>

fun jsNumber :: "(string \<Rightarrow> jsnum) \<Rightarrow> (jsnum \<Rightarrow> string) \<Rightarrow> jsval \<Rightarrow> jserror + jsnum" where
  "jsNumber toNum numStr Undefined = Inr NaN"
| "jsNumber toNum numStr Null = Inr (Fin 0)"
| "jsNumber toNum numStr (Bool b) = Inr (Fin (if b then 1 else 0))"
| "jsNumber toNum numStr (Num n) = Inr n"
| "jsNumber toNum numStr (Str s) = Inr (toNum s)"
| "jsNumber toNum numStr v = bindE (jsString numStr v) (\<lambda>s. Inr (toNum s))"





















section \<open>Evaluating the sample document\<close>

lemma uidSample_simps:
  "uidSample 0 = ''id0''" "uidSample (Suc 0) = ''id1''" "uidSample 2 = ''id2''" "uidSample 3 = ''id3''"
  "uidSample 4 = ''id4''" "uidSample 5 = ''id5''" "uidSample 6 = ''id6''" "uidSample 7 = ''id7''"
  "uidSample 8 = ''id8''" "uidSample 9 = ''id9''"
  by (simp_all add: uidSample_def)

lemmas sample_simps = seedSample_def seed_def Let_def uidSample_simps

lemma seedSample_ids:
  "map tank_id (tanks seedSample) = [''id0'', ''id1'']"
  "map line_id (lines seedSample) = [''id2'']"
  "map attempt_id (attempts seedSample) = [''id3'']"
  "map attempt_tankIds (attempts seedSample) = [[''id0'', ''id1'']]"
  "map group_tankId (groups seedSample) = [''id0'', ''id1'']"
  "map water_tankId (water seedSample) = [''id0'', ''id1'']"
  "map log_tankId (logE seedSample) = [''id0'', []]"
  by (simp_all add: sample_simps)

section \<open>Removing a tank\<close>

lemma filter_neq_removeAll: "filter (\<lambda>x. x \<noteq> t) xs = removeAll t xs"
  by (induction xs) auto

lemma removeAll_empty_iff: "(removeAll t xs = []) = (set xs \<subseteq> {t})"
  by (induction xs) auto

lemma removeTank_attempts:
  "attempts (removeTank t s) =
     map (\<lambda>a. a\<lparr>attempt_tankIds := removeAll t (attempt_tankIds a)\<rparr>)
       (filter (\<lambda>a. \<not> set (attempt_tankIds a) \<subseteq> {t}) (attempts s))"
  by (simp add: removeTank_def Let_def filter_neq_removeAll filter_map o_def removeAll_empty_iff)

text \<open>
  C1. After \<open>removeTank t\<close> no attempt lists \<open>t\<close> and no attempt has an empty tank list; no
  group, water entry or log entry has \<open>tankId = t\<close>; the attempts are the former ones with
  \<open>t\<close> struck from their tank lists, without those whose list held nothing but \<open>t\<close>; and
  the tanks are the former ones without every tank of id \<open>t\<close>.
\<close>

theorem removeTank_cascade:
  "(\<forall>a \<in> set (attempts (removeTank t s)). t \<notin> set (attempt_tankIds a) \<and> attempt_tankIds a \<noteq> []) \<and>
   (\<forall>g \<in> set (groups (removeTank t s)). group_tankId g \<noteq> t) \<and>
   (\<forall>w \<in> set (water (removeTank t s)). water_tankId w \<noteq> t) \<and>
   (\<forall>e \<in> set (logE (removeTank t s)). log_tankId e \<noteq> t) \<and>
   attempts (removeTank t s) =
     map (\<lambda>a. a\<lparr>attempt_tankIds := removeAll t (attempt_tankIds a)\<rparr>)
       (filter (\<lambda>a. \<not> set (attempt_tankIds a) \<subseteq> {t}) (attempts s)) \<and>
   tanks (removeTank t s) = filter (\<lambda>x. tank_id x \<noteq> t) (tanks s)"
proof -
  have "\<forall>a \<in> set (attempts (removeTank t s)). t \<notin> set (attempt_tankIds a) \<and> attempt_tankIds a \<noteq> []"
    unfolding removeTank_attempts by (auto simp: removeAll_empty_iff)
  moreover have "\<forall>g \<in> set (groups (removeTank t s)). group_tankId g \<noteq> t"
    by (simp add: removeTank_def Let_def)
  moreover have "\<forall>w \<in> set (water (removeTank t s)). water_tankId w \<noteq> t"
    by (simp add: removeTank_def Let_def)
  moreover have "\<forall>e \<in> set (logE (removeTank t s)). log_tankId e \<noteq> t"
    by (simp add: removeTank_def Let_def)
  moreover have "tanks (removeTank t s) = filter (\<lambda>x. tank_id x \<noteq> t) (tanks s)"
    by (simp add: removeTank_def Let_def)
  ultimately show ?thesis using removeTank_attempts by blast
qed

text \<open>
  On the seed document, removing the first tank leaves the attempt with the second tank
  alone, and one tank, one group, one water entry and the general log entry.
\<close>

theorem removeTank_cascade_witness:
  "map attempt_tankIds (attempts (removeTank ''id0'' seedSample)) = [[''id1'']] \<and>
   map group_tankId (groups (removeTank ''id0'' seedSample)) = [''id1''] \<and>
   map water_tankId (water (removeTank ''id0'' seedSample)) = [''id1''] \<and>
   map log_tankId (logE (removeTank ''id0'' seedSample)) = [[]] \<and>
   map tank_id (tanks (removeTank ''id0'' seedSample)) = [''id1''] \<and>
   tanks (removeTank ''id0'' seedSample) = filter (\<lambda>x. tank_id x \<noteq> ''id0'') (tanks seedSample)"
proof -
  have "map attempt_tankIds (attempts (removeTank ''id0'' seedSample)) = [[''id1'']]"
    by (simp add: removeTank_def sample_simps)
  moreover have "map group_tankId (groups (removeTank ''id0'' seedSample)) = [''id1'']"
    by (simp add: removeTank_def sample_simps)
  moreover have "map water_tankId (water (removeTank ''id0'' seedSample)) = [''id1'']"
    by (simp add: removeTank_def sample_simps)
  moreover have "map log_tankId (logE (removeTank ''id0'' seedSample)) = [[]]"
    by (simp add: removeTank_def sample_simps)
  moreover have "map tank_id (tanks (removeTank ''id0'' seedSample)) = [''id1'']"
    by (simp add: removeTank_def sample_simps)
  ultimately show ?thesis
    using removeTank_cascade [of "''id0''" seedSample] by blast
qed

section \<open>Removing an attempt\<close>

text \<open>
  C6. After \<open>removeAttempt a\<close> no attempt has id \<open>a\<close>, no group and no log entry has
  \<open>attemptId = a\<close>, and tanks, lines, water entries and settings are as before.
\<close>

theorem removeAttempt_cascade:
  "(\<forall>x \<in> set (attempts (removeAttempt a s)). attempt_id x \<noteq> a) \<and>
   (\<forall>g \<in> set (groups (removeAttempt a s)). group_attemptId g \<noteq> a) \<and>
   (\<forall>e \<in> set (logE (removeAttempt a s)). log_attemptId e \<noteq> a) \<and>
   tanks (removeAttempt a s) = tanks s \<and> lines (removeAttempt a s) = lines s \<and>
   water (removeAttempt a s) = water s \<and> settings (removeAttempt a s) = settings s"
  by (simp add: removeAttempt_def Let_def)

theorem removeAttempt_cascade_witness:
  "attempts (removeAttempt ''id3'' seedSample) = [] \<and> groups (removeAttempt ''id3'' seedSample) = [] \<and>
   logE (removeAttempt ''id3'' seedSample) = [] \<and>
   attempts seedSample \<noteq> [] \<and> groups seedSample \<noteq> [] \<and> logE seedSample \<noteq> [] \<and>
   tanks (removeAttempt ''id3'' seedSample) = tanks seedSample \<and>
   water (removeAttempt ''id3'' seedSample) = water seedSample"
proof -
  have "attempts (removeAttempt ''id3'' seedSample) = []"
    "groups (removeAttempt ''id3'' seedSample) = []"
    "logE (removeAttempt ''id3'' seedSample) = []"
    by (simp_all add: removeAttempt_def sample_simps)
  moreover have "attempts seedSample \<noteq> []" "groups seedSample \<noteq> []" "logE seedSample \<noteq> []"
    by (simp_all add: sample_simps)
  ultimately show ?thesis
    using removeAttempt_cascade [of "''id3''" seedSample] by blast
qed

section \<open>Removing an id that names nothing\<close>

lemma removeTank_unreferenced:
  assumes t: "\<forall>x \<in> set (tanks s). tank_id x \<noteq> i"
    and a: "\<forall>x \<in> set (attempts s). i \<notin> set (attempt_tankIds x) \<and> attempt_tankIds x \<noteq> []"
    and g: "\<forall>x \<in> set (groups s). group_tankId x \<noteq> i"
    and w: "\<forall>x \<in> set (water s). water_tankId x \<noteq> i"
    and e: "\<forall>x \<in> set (logE s). log_tankId x \<noteq> i"
  shows "removeTank i s = s"
proof -
  have keep: "filter (\<lambda>x. x \<noteq> i) xs = xs" if "i \<notin> set xs" for xs :: "string list"
    using that by (induction xs) auto
  have "map (\<lambda>x. x\<lparr>attempt_tankIds := filter (\<lambda>y. y \<noteq> i) (attempt_tankIds x)\<rparr>) (attempts s)
          = attempts s"
    using a by (intro map_idI) (simp add: keep)
  moreover have "filter (\<lambda>x. length (attempt_tankIds x) > 0) (attempts s) = attempts s"
    using a by (intro filter_True) simp
  ultimately have "attempts (removeTank i s) = attempts s"
    by (simp add: removeTank_def Let_def)
  moreover have "tanks (removeTank i s) = tanks s"
    using t by (simp add: removeTank_def Let_def)
  moreover have "groups (removeTank i s) = groups s"
    using g by (simp add: removeTank_def Let_def)
  moreover have "water (removeTank i s) = water s"
    using w by (simp add: removeTank_def Let_def)
  moreover have "logE (removeTank i s) = logE s"
    using e by (simp add: removeTank_def Let_def)
  ultimately show ?thesis
    by (intro AppState.equality) (simp_all add: removeTank_def Let_def)
qed

lemma removeAttempt_unreferenced:
  assumes "\<forall>x \<in> set (attempts s). attempt_id x \<noteq> i"
    and "\<forall>x \<in> set (groups s). group_attemptId x \<noteq> i"
    and "\<forall>x \<in> set (logE s). log_attemptId x \<noteq> i"
  shows "removeAttempt i s = s"
  using assms by (simp add: removeAttempt_def Let_def)

text \<open>
  C8, as the code has it. \<open>removeTank i\<close> leaves the document as it is when \<open>i\<close> is no
  tank's id, no attempt lists \<open>i\<close> or has an empty tank list, and no group, water entry or
  log entry has \<open>tankId = i\<close>. \<open>removeAttempt i\<close> leaves it as it is when \<open>i\<close> is no
  attempt's id and no group or log entry has \<open>attemptId = i\<close>.
\<close>

theorem remove_absent_id_unreferenced:
  "((\<forall>x \<in> set (tanks s). tank_id x \<noteq> i) \<and>
    (\<forall>x \<in> set (attempts s). i \<notin> set (attempt_tankIds x) \<and> attempt_tankIds x \<noteq> []) \<and>
    (\<forall>x \<in> set (groups s). group_tankId x \<noteq> i) \<and>
    (\<forall>x \<in> set (water s). water_tankId x \<noteq> i) \<and>
    (\<forall>x \<in> set (logE s). log_tankId x \<noteq> i)
      \<longrightarrow> removeTank i s = s) \<and>
   ((\<forall>x \<in> set (attempts s). attempt_id x \<noteq> j) \<and>
    (\<forall>x \<in> set (groups s). group_attemptId x \<noteq> j) \<and>
    (\<forall>x \<in> set (logE s). log_attemptId x \<noteq> j)
      \<longrightarrow> removeAttempt j s = s)"
  using removeTank_unreferenced [of s i] removeAttempt_unreferenced [of s j] by blast

text \<open>On the seed document nothing refers to \<open>zz\<close>: both removals return the document.\<close>

theorem remove_absent_id_unreferenced_witness:
  "removeTank ''zz'' seedSample = seedSample \<and> removeAttempt ''zz'' seedSample = seedSample \<and>
   tanks seedSample \<noteq> [] \<and> attempts seedSample \<noteq> [] \<and> groups seedSample \<noteq> [] \<and>
   water seedSample \<noteq> [] \<and> logE seedSample \<noteq> []"
proof -
  have t: "\<forall>x \<in> set (tanks seedSample). tank_id x \<noteq> ''zz''"
    by (simp add: sample_simps)
  have a: "\<forall>x \<in> set (attempts seedSample). ''zz'' \<notin> set (attempt_tankIds x) \<and> attempt_tankIds x \<noteq> []"
    by (simp add: sample_simps)
  have g: "\<forall>x \<in> set (groups seedSample). group_tankId x \<noteq> ''zz''"
    by (simp add: sample_simps)
  have w: "\<forall>x \<in> set (water seedSample). water_tankId x \<noteq> ''zz''"
    by (simp add: sample_simps)
  have e: "\<forall>x \<in> set (logE seedSample). log_tankId x \<noteq> ''zz''"
    by (simp add: sample_simps)
  have a': "\<forall>x \<in> set (attempts seedSample). attempt_id x \<noteq> ''zz''"
    by (simp add: sample_simps)
  have g': "\<forall>x \<in> set (groups seedSample). group_attemptId x \<noteq> ''zz''"
    by (simp add: sample_simps)
  have e': "\<forall>x \<in> set (logE seedSample). log_attemptId x \<noteq> ''zz''"
    by (simp add: sample_simps)
  have ne: "tanks seedSample \<noteq> []" "attempts seedSample \<noteq> []" "groups seedSample \<noteq> []"
    "water seedSample \<noteq> []" "logE seedSample \<noteq> []"
    by (simp_all add: sample_simps)
  show ?thesis
    using remove_absent_id_unreferenced [of seedSample "''zz''" "''zz''"] t a g w e a' g' e' ne
    by blast
qed

text \<open>
  The claim as stated fails. The empty string is no tank's id in the seed document, yet
  \<open>removeTank\<close> with it deletes the log entry that is attached to no tank. And once both
  tanks of the seed document are removed, no attempt is left, but the general log entry
  still names the attempt: \<open>removeAttempt\<close> with that id deletes it.
\<close>

theorem remove_absent_id_counterexample:
  "[] \<notin> set (map tank_id (tanks seedSample)) \<and>
   length (logE seedSample) = 2 \<and> length (logE (removeTank [] seedSample)) = 1 \<and>
   removeTank [] seedSample \<noteq> seedSample \<and>
   attempts (removeTank ''id1'' (removeTank ''id0'' seedSample)) = [] \<and>
   length (logE (removeTank ''id1'' (removeTank ''id0'' seedSample))) = 1 \<and>
   logE (removeAttempt ''id3'' (removeTank ''id1'' (removeTank ''id0'' seedSample))) = [] \<and>
   removeAttempt ''id3'' (removeTank ''id1'' (removeTank ''id0'' seedSample))
     \<noteq> removeTank ''id1'' (removeTank ''id0'' seedSample)"
proof -
  have 1: "[] \<notin> set (map tank_id (tanks seedSample))"
    by (simp add: sample_simps)
  have 2: "length (logE seedSample) = 2"
    by (simp add: sample_simps)
  have 3: "length (logE (removeTank [] seedSample)) = 1"
    by (simp add: removeTank_def sample_simps)
  have 4: "removeTank [] seedSample \<noteq> seedSample"
  proof
    assume "removeTank [] seedSample = seedSample"
    with 2 3 show False by simp
  qed
  have 5: "attempts (removeTank ''id1'' (removeTank ''id0'' seedSample)) = []"
    by (simp add: removeTank_def sample_simps)
  have 6: "length (logE (removeTank ''id1'' (removeTank ''id0'' seedSample))) = 1"
    by (simp add: removeTank_def sample_simps)
  have 7: "logE (removeAttempt ''id3'' (removeTank ''id1'' (removeTank ''id0'' seedSample))) = []"
    by (simp add: removeAttempt_def removeTank_def sample_simps)
  have 8: "removeAttempt ''id3'' (removeTank ''id1'' (removeTank ''id0'' seedSample))
     \<noteq> removeTank ''id1'' (removeTank ''id0'' seedSample)"
  proof
    assume "removeAttempt ''id3'' (removeTank ''id1'' (removeTank ''id0'' seedSample))
      = removeTank ''id1'' (removeTank ''id0'' seedSample)"
    with 6 7 show False by simp
  qed
  show ?thesis using 1 2 3 4 5 6 7 8 by blast
qed

section \<open>Upserts\<close>

lemma upsertTank_existing:
  assumes "tank_id tank \<in> tank_id ` set (tanks s)"
  shows "length (tanks (upsertTank tank s)) = length (tanks s)"
    and "i < length (tanks s) \<Longrightarrow> tank_id (tanks s ! i) = tank_id tank
           \<Longrightarrow> tanks (upsertTank tank s) ! i = mergeTank (tanks s ! i) tank"
    and "i < length (tanks s) \<Longrightarrow> tank_id (tanks s ! i) \<noteq> tank_id tank
           \<Longrightarrow> tanks (upsertTank tank s) ! i = tanks s ! i"
  using assms by (auto simp: upsertTank_def Let_def list_ex_iff)

lemma upsertTank_new:
  assumes "tank_id tank \<notin> tank_id ` set (tanks s)"
  shows "tanks (upsertTank tank s) = tank # tanks s"
proof -
  have "\<not> list_ex (\<lambda>t. tank_id t = tank_id tank) (tanks s)"
    unfolding list_ex_iff using assms by (metis imageI)
  then show ?thesis by (simp add: upsertTank_def Let_def)
qed

lemma mergeTank_fields: "mergeTank t tank = tank"
  by (simp add: mergeTank_def)

lemma upsertAttempt_existing:
  assumes "attempt_id a \<in> attempt_id ` set (attempts s)"
  shows "length (attempts (upsertAttempt a s)) = length (attempts s)"
    and "i < length (attempts s) \<Longrightarrow> attempt_id (attempts s ! i) = attempt_id a
           \<Longrightarrow> attempts (upsertAttempt a s) ! i = mergeAttempt (attempts s ! i) a"
    and "i < length (attempts s) \<Longrightarrow> attempt_id (attempts s ! i) \<noteq> attempt_id a
           \<Longrightarrow> attempts (upsertAttempt a s) ! i = attempts s ! i"
  using assms by (auto simp: upsertAttempt_def Let_def list_ex_iff)

lemma upsertAttempt_new:
  assumes "attempt_id a \<notin> attempt_id ` set (attempts s)"
  shows "attempts (upsertAttempt a s) = a # attempts s"
proof -
  have "\<not> list_ex (\<lambda>x. attempt_id x = attempt_id a) (attempts s)"
    unfolding list_ex_iff using assms by (metis imageI)
  then show ?thesis by (simp add: upsertAttempt_def Let_def)
qed

lemma mergeAttempt_fields: "mergeAttempt x a = a"
  by (simp add: mergeAttempt_def)

text \<open>
  C3 at a group whose id is already stored. \<open>upsertGroup\<close> with the first group of the seed
  document under another name: the group comes first, and the stored record of the same id
  follows unchanged, where \<open>upsertTank\<close> and \<open>upsertAttempt\<close> overwrite the stored record
  in its place.
\<close>

theorem upsertGroup_existing_id:
  "group_id ((groups seedSample ! 0)\<lparr>group_name := ''Neu''\<rparr>) = ''id4'' \<and>
   map group_id (groups seedSample) = [''id4'', ''id5''] \<and>
   map group_id (groups (upsertGroup ((groups seedSample ! 0)\<lparr>group_name := ''Neu''\<rparr>) seedSample))
     = [''id4'', ''id4'', ''id5''] \<and>
   map group_name (groups (upsertGroup ((groups seedSample ! 0)\<lparr>group_name := ''Neu''\<rparr>) seedSample))
     = [''Neu'', ''Zuchtgruppe'', ''Jungfische'']"
  by (simp add: upsertGroup_def sample_simps)

section \<open>Removing a line\<close>

lemma linkedCount_pos_iff:
  "(linkedCount as i > 0) = (\<exists>a \<in> set as. attempt_lineId a = i \<and> \<not> attempt_archived a)"
  by (auto simp: linkedCount_def filter_empty_conv)

lemma archived_after_map:
  "\<forall>l \<in> set (map (\<lambda>l. if line_id l = L then l\<lparr>line_archived := True\<rparr> else l) (xs :: Line list)).
     line_id l = L \<longrightarrow> line_archived l"
proof (intro ballI impI)
  fix l
  define F :: "Line \<Rightarrow> Line" where "F = (\<lambda>l. if line_id l = L then l\<lparr>line_archived := True\<rparr> else l)"
  assume "l \<in> set (map (\<lambda>l. if line_id l = L then l\<lparr>line_archived := True\<rparr> else l) xs)"
    and i: "line_id l = L"
  then have "l \<in> F ` set xs"
    by (simp only: set_map F_def)
  then obtain l0 where l: "l = F l0"
    by (rule imageE)
  show "line_archived l"
  proof (cases "line_id l0 = L")
    case True
    then show ?thesis by (simp add: l F_def)
  next
    case False
    then have "l = l0" by (simp add: l F_def)
    with i False show ?thesis by simp
  qed
qed

lemma absent_after_filter: "L \<notin> line_id ` set (filter (\<lambda>l. line_id l \<noteq> L) (xs :: Line list))"
proof
  assume "L \<in> line_id ` set (filter (\<lambda>l. line_id l \<noteq> L) xs)"
  then obtain l where "L = line_id l" and "l \<in> set (filter (\<lambda>l. line_id l \<noteq> L) xs)"
    by (rule imageE)
  then show False by simp
qed

text \<open>
  C5. When at least one attempt that is not archived has \<open>lineId = L\<close>, a line of id \<open>L\<close>
  that is in the collection is still there after \<open>removeLine L\<close>, every line of that id
  is archived, and the collection keeps its length. When no such attempt exists, no line
  of id \<open>L\<close> is left.
\<close>

theorem removeLine_archive_or_delete:
  "((\<exists>a \<in> set (attempts s). attempt_lineId a = L \<and> \<not> attempt_archived a) \<longrightarrow>
      (L \<in> line_id ` set (lines s) \<longrightarrow> L \<in> line_id ` set (lines (removeLine L s))) \<and>
      (\<forall>l \<in> set (lines (removeLine L s)). line_id l = L \<longrightarrow> line_archived l) \<and>
      length (lines (removeLine L s)) = length (lines s)) \<and>
   (\<not> (\<exists>a \<in> set (attempts s). attempt_lineId a = L \<and> \<not> attempt_archived a) \<longrightarrow>
      L \<notin> line_id ` set (lines (removeLine L s)))"
proof (cases "linkedCount (attempts s) L > 0")
  case True
  have ex: "\<exists>a \<in> set (attempts s). attempt_lineId a = L \<and> \<not> attempt_archived a"
    using True by (simp add: linkedCount_pos_iff)
  have ls: "lines (removeLine L s) =
      map (\<lambda>l. if line_id l = L then l\<lparr>line_archived := True\<rparr> else l) (lines s)"
    using True by (simp add: removeLine_def)
  have "map line_id (lines (removeLine L s)) = map line_id (lines s)"
    unfolding ls by simp
  then have ids: "line_id ` set (lines (removeLine L s)) = line_id ` set (lines s)"
    by (metis set_map)
  have arch: "\<forall>l \<in> set (lines (removeLine L s)). line_id l = L \<longrightarrow> line_archived l"
    unfolding ls by (rule archived_after_map)
  have len: "length (lines (removeLine L s)) = length (lines s)"
    unfolding ls by simp
  show ?thesis using ex ids arch len by blast
next
  case False
  have nex: "\<not> (\<exists>a \<in> set (attempts s). attempt_lineId a = L \<and> \<not> attempt_archived a)"
    using False by (simp add: linkedCount_pos_iff)
  have ls: "lines (removeLine L s) = filter (\<lambda>l. line_id l \<noteq> L) (lines s)"
    using False by (simp add: removeLine_def)
  have gone: "L \<notin> line_id ` set (lines (removeLine L s))"
    unfolding ls by (rule absent_after_filter)
  show ?thesis using nex gone by blast
qed

text \<open>
  The line of the seed document is referenced by its attempt: removal archives it. Once
  the attempt is removed, removal deletes the line.
\<close>

theorem removeLine_archive_or_delete_witness:
  "map line_id (lines seedSample) = [''id2''] \<and>
   map attempt_lineId (attempts seedSample) = [''id2''] \<and>
   map attempt_archived (attempts seedSample) = [False] \<and>
   map line_archived (lines seedSample) = [False] \<and>
   length (lines (removeLine ''id2'' seedSample)) = length (lines seedSample) \<and>
   map line_archived (lines (removeLine ''id2'' seedSample)) = [True] \<and>
   attempts (removeAttempt ''id3'' seedSample) = [] \<and>
   ''id2'' \<notin> line_id ` set (lines (removeLine ''id2'' (removeAttempt ''id3'' seedSample)))"
proof -
  have h1: "\<exists>a \<in> set (attempts seedSample). attempt_lineId a = ''id2'' \<and> \<not> attempt_archived a"
    by (simp add: sample_simps)
  have h2: "\<not> (\<exists>a \<in> set (attempts (removeAttempt ''id3'' seedSample)).
              attempt_lineId a = ''id2'' \<and> \<not> attempt_archived a)"
    by (simp add: removeAttempt_def sample_simps)
  have e: "map line_id (lines seedSample) = [''id2'']"
    "map attempt_lineId (attempts seedSample) = [''id2'']"
    "map attempt_archived (attempts seedSample) = [False]"
    "map line_archived (lines seedSample) = [False]"
    "attempts (removeAttempt ''id3'' seedSample) = []"
    by (simp_all add: removeAttempt_def sample_simps)
  have a: "map line_archived (lines (removeLine ''id2'' seedSample)) = [True]"
    by (simp add: removeLine_def linkedCount_def sample_simps)
  show ?thesis
    using removeLine_archive_or_delete [of seedSample "''id2''"]
      removeLine_archive_or_delete [of "removeAttempt ''id3'' seedSample" "''id2''"] h1 h2 e a
    by blast
qed

section \<open>Threshold classification\<close>

lemma jslt_irrefl: "\<not> jslt x x"
  by (cases x) simp_all

text \<open>
  C4, as the code has it. \<open>inRange\<close> is \<open>na\<close> for the absent value; \<open>low\<close> when a
  minimum is configured and the value is below it; \<open>high\<close> when it is not low, a maximum
  is configured and the value is above it; \<open>ok\<close> in every other case. The bounds are
  inclusive: a value equal to the configured minimum is never \<open>low\<close> and is \<open>ok\<close> unless it
  is above a configured maximum; a value equal to the configured maximum is never \<open>high\<close>
  and is \<open>ok\<close> unless it is below a configured minimum; a value equal to both is \<open>ok\<close>.
  With no bound configured every value is \<open>ok\<close>.
\<close>

theorem inRange_classify:
  "inRange None l = na \<and>
   (lim_min l = Some m \<and> jslt x m \<longrightarrow> inRange (Some x) l = low) \<and>
   (\<not> (\<exists>m'. lim_min l = Some m' \<and> jslt x m') \<and> lim_max l = Some M \<and> jslt M x
      \<longrightarrow> inRange (Some x) l = high) \<and>
   (\<not> (\<exists>m'. lim_min l = Some m' \<and> jslt x m') \<and> \<not> (\<exists>M'. lim_max l = Some M' \<and> jslt M' x)
      \<longrightarrow> inRange (Some x) l = ok) \<and>
   (lim_min l = Some x \<longrightarrow> inRange (Some x) l \<noteq> low) \<and>
   (lim_max l = Some x \<longrightarrow> inRange (Some x) l \<noteq> high) \<and>
   (lim_min l = Some x \<and> \<not> (\<exists>M'. lim_max l = Some M' \<and> jslt M' x)
      \<longrightarrow> inRange (Some x) l = ok) \<and>
   (lim_max l = Some x \<and> \<not> (\<exists>m'. lim_min l = Some m' \<and> jslt x m')
      \<longrightarrow> inRange (Some x) l = ok) \<and>
   inRange (Some x) \<lparr>lim_min = Some x, lim_max = Some x\<rparr> = ok \<and>
   inRange (Some x) \<lparr>lim_min = None, lim_max = None\<rparr> = ok"
proof -
  have "inRange None l = na"
    by (simp add: inRange_def)
  moreover have "lim_min l = Some m \<and> jslt x m \<longrightarrow> inRange (Some x) l = low"
    by (simp add: inRange_def)
  moreover have "\<not> (\<exists>m'. lim_min l = Some m' \<and> jslt x m') \<and> lim_max l = Some M \<and> jslt M x
      \<longrightarrow> inRange (Some x) l = high"
    by (cases "lim_min l") (simp_all add: inRange_def)
  moreover have o: "\<not> (\<exists>m'. lim_min l = Some m' \<and> jslt x m') \<and> \<not> (\<exists>M'. lim_max l = Some M' \<and> jslt M' x)
      \<longrightarrow> inRange (Some x) l = ok"
    by (cases "lim_min l"; cases "lim_max l") (simp_all add: inRange_def)
  moreover have "lim_min l = Some x \<longrightarrow> inRange (Some x) l \<noteq> low"
    by (simp add: inRange_def jslt_irrefl)
  moreover have "lim_max l = Some x \<longrightarrow> inRange (Some x) l \<noteq> high"
    by (simp add: inRange_def jslt_irrefl)
  moreover have "lim_min l = Some x \<and> \<not> (\<exists>M'. lim_max l = Some M' \<and> jslt M' x)
      \<longrightarrow> inRange (Some x) l = ok"
    by (cases "lim_max l") (simp_all add: inRange_def jslt_irrefl)
  moreover have "lim_max l = Some x \<and> \<not> (\<exists>m'. lim_min l = Some m' \<and> jslt x m')
      \<longrightarrow> inRange (Some x) l = ok"
    by (cases "lim_min l") (simp_all add: inRange_def jslt_irrefl)
  moreover have "inRange (Some x) \<lparr>lim_min = Some x, lim_max = Some x\<rparr> = ok"
    by (simp add: inRange_def jslt_irrefl)
  moreover have "inRange (Some x) \<lparr>lim_min = None, lim_max = None\<rparr> = ok"
    by (simp add: inRange_def)
  ultimately show ?thesis by blast
qed

text \<open>
  The five values of the spec, the two readings of the seeded temperature, and a value on
  the minimum of the seeded temperature limits.
\<close>

theorem inRange_classify_witness:
  "inRange None \<lparr>lim_min = Some (Fin 6), lim_max = None\<rparr> = na \<and>
   inRange (Some (Fin 5)) \<lparr>lim_min = Some (Fin 6), lim_max = None\<rparr> = low \<and>
   inRange (Some (Fin 5)) \<lparr>lim_min = None, lim_max = Some (Fin 4)\<rparr> = high \<and>
   inRange (Some (Fin 5)) \<lparr>lim_min = Some (Fin 5), lim_max = Some (Fin 5)\<rparr> = ok \<and>
   inRange (Some (Fin 5)) \<lparr>lim_min = None, lim_max = None\<rparr> = ok \<and>
   inRange (Some (Fin (126 / 5))) \<lparr>lim_min = Some (Fin 22), lim_max = Some (Fin 28)\<rparr> = ok \<and>
   inRange (Some (Fin (126 / 5))) \<lparr>lim_min = Some (Fin 26), lim_max = Some (Fin 28)\<rparr> = low \<and>
   inRange (Some (Fin 22)) \<lparr>lim_min = Some (Fin 22), lim_max = Some (Fin 28)\<rparr> = ok \<and>
   inRange (Some (Fin 28)) \<lparr>lim_min = Some (Fin 22), lim_max = Some (Fin 28)\<rparr> = ok"
proof -
  have 1: "inRange None \<lparr>lim_min = Some (Fin 6), lim_max = None\<rparr> = na"
    using inRange_classify [of "\<lparr>lim_min = Some (Fin 6), lim_max = None\<rparr>" "Fin 6" "Fin 5" "Fin 0"]
    by blast
  have 2: "inRange (Some (Fin 5)) \<lparr>lim_min = Some (Fin 6), lim_max = None\<rparr> = low"
    using inRange_classify [of "\<lparr>lim_min = Some (Fin 6), lim_max = None\<rparr>" "Fin 6" "Fin 5" "Fin 0"]
    by simp
  have 3: "inRange (Some (Fin 5)) \<lparr>lim_min = None, lim_max = Some (Fin 4)\<rparr> = high"
    using inRange_classify [of "\<lparr>lim_min = None, lim_max = Some (Fin 4)\<rparr>" "Fin 0" "Fin 5" "Fin 4"]
    by simp
  have 4: "inRange (Some (Fin 5)) \<lparr>lim_min = Some (Fin 5), lim_max = Some (Fin 5)\<rparr> = ok"
    using inRange_classify [of "\<lparr>lim_min = None, lim_max = None\<rparr>" "Fin 0" "Fin 5" "Fin 0"]
    by blast
  have 5: "inRange (Some (Fin 5)) \<lparr>lim_min = None, lim_max = None\<rparr> = ok"
    using inRange_classify [of "\<lparr>lim_min = None, lim_max = None\<rparr>" "Fin 0" "Fin 5" "Fin 0"]
    by blast
  have 6: "inRange (Some (Fin (126 / 5))) \<lparr>lim_min = Some (Fin 22), lim_max = Some (Fin 28)\<rparr> = ok"
    using inRange_classify [of "\<lparr>lim_min = Some (Fin 22), lim_max = Some (Fin 28)\<rparr>"
        "Fin 0" "Fin (126 / 5)" "Fin 0"]
    by simp
  have 7: "inRange (Some (Fin (126 / 5))) \<lparr>lim_min = Some (Fin 26), lim_max = Some (Fin 28)\<rparr> = low"
    using inRange_classify [of "\<lparr>lim_min = Some (Fin 26), lim_max = Some (Fin 28)\<rparr>"
        "Fin 26" "Fin (126 / 5)" "Fin 0"]
    by simp
  have 8: "inRange (Some (Fin 22)) \<lparr>lim_min = Some (Fin 22), lim_max = Some (Fin 28)\<rparr> = ok"
    using inRange_classify [of "\<lparr>lim_min = Some (Fin 22), lim_max = Some (Fin 28)\<rparr>"
        "Fin 0" "Fin 22" "Fin 0"]
    by simp
  have 9: "inRange (Some (Fin 28)) \<lparr>lim_min = Some (Fin 22), lim_max = Some (Fin 28)\<rparr> = ok"
    using inRange_classify [of "\<lparr>lim_min = Some (Fin 22), lim_max = Some (Fin 28)\<rparr>"
        "Fin 0" "Fin 28" "Fin 0"]
    by simp
  show ?thesis using 1 2 3 4 5 6 7 8 9 by blast
qed

text \<open>
  The claim as stated fails. The settings form accepts a minimum above the maximum. A
  value equal to the configured minimum 5 is \<open>high\<close> under the maximum 4, and a value
  equal to the configured maximum 5 is \<open>low\<close> under the minimum 6.
\<close>

theorem inRange_equal_bound_counterexample:
  "inRange (Some (Fin 5)) \<lparr>lim_min = Some (Fin 5), lim_max = Some (Fin 4)\<rparr> = high \<and>
   inRange (Some (Fin 5)) \<lparr>lim_min = Some (Fin 6), lim_max = Some (Fin 5)\<rparr> = low"
  by (simp add: inRange_def)

section \<open>Dashboard aggregates\<close>

lemma logCmp_neg: "(logCmp a b < 0) = (\<not> log_date a < log_date b)"
  by (simp add: logCmp_def)

lemma logCmp_nonpos: "(logCmp a b \<le> 0) = (\<not> log_date a < log_date b)"
  by (simp add: logCmp_def)

lemma set_insertBelow: "set (insertBelow cmp x ys) = insert x (set ys)"
  by (induction ys) auto

lemma sortFromLeft_snoc: "sortFromLeft cmp (xs @ [x]) = insertBelow cmp x (sortFromLeft cmp xs)"
  by (simp add: sortFromLeft_def)

lemma set_sortFromLeft: "set (sortFromLeft cmp xs) = set xs"
proof (induction xs rule: rev_induct)
  case Nil
  show ?case by (simp add: sortFromLeft_def)
next
  case (snoc x xs)
  then show ?case by (simp add: sortFromLeft_snoc set_insertBelow)
qed

lemma desc_insertBelow:
  assumes "sorted_wrt (\<lambda>a b. \<not> log_date a < log_date b) ys"
  shows "sorted_wrt (\<lambda>a b. \<not> log_date a < log_date b) (insertBelow logCmp x ys)"
  using assms
proof (induction ys)
  case Nil
  show ?case by simp
next
  case (Cons y ys)
  show ?case
  proof (cases "log_date x < log_date y")
    case True
    then have "insertBelow logCmp x (y # ys) = y # insertBelow logCmp x ys"
      by (simp add: logCmp_neg)
    moreover have "sorted_wrt (\<lambda>a b. \<not> log_date a < log_date b) (insertBelow logCmp x ys)"
      using Cons by simp
    moreover have "\<forall>z \<in> set (insertBelow logCmp x ys). \<not> log_date y < log_date z"
      using Cons.prems True by (auto simp: set_insertBelow)
    ultimately show ?thesis by simp
  next
    case False
    then have "insertBelow logCmp x (y # ys) = x # y # ys"
      by (simp add: logCmp_neg)
    moreover have "\<forall>z \<in> set (y # ys). \<not> log_date x < log_date z"
    proof
      fix z
      assume "z \<in> set (y # ys)"
      then have "log_date z \<le> log_date y"
        using Cons.prems by auto
      with False show "\<not> log_date x < log_date z" by simp
    qed
    ultimately show ?thesis using Cons.prems by simp
  qed
qed

lemma desc_sortFromLeft:
  "sorted_wrt (\<lambda>a b. \<not> log_date a < log_date b) (sortFromLeft logCmp xs)"
proof (induction xs rule: rev_induct)
  case Nil
  show ?case by (simp add: sortFromLeft_def)
next
  case (snoc x xs)
  then show ?case by (simp add: sortFromLeft_snoc desc_insertBelow)
qed

lemma insertNotAbove_logCmp: "insertNotAbove logCmp x ys = insertStableDesc x ys"
  by (induction ys) (simp_all add: logCmp_nonpos)

lemma sortFromRight_logCmp: "sortFromRight logCmp xs = stableSortDesc xs"
  by (induction xs) (simp_all add: sortFromRight_def stableSortDesc_def insertNotAbove_logCmp)

text \<open>Under \<open>sortFromRight\<close> the dashboard shows the entry the stable sort puts first.\<close>

lemma lastLog_sortFromRight: "lastLog sortFromRight s = mostRecentStable s"
  by (simp add: lastLog_def mostRecentStable_def sortFromRight_logCmp)

lemma lastLog_first:
  assumes perm: "set (srt logCmp (logE s)) = set (logE s)"
    and desc: "sorted_wrt (\<lambda>a b. \<not> log_date a < log_date b) (srt logCmp (logE s))"
    and ne: "logE s \<noteq> []"
  shows "\<exists>e \<in> set (logE s). lastLog srt s = Some e \<and> (\<forall>x \<in> set (logE s). log_date x \<le> log_date e)"
proof -
  from perm ne have "srt logCmp (logE s) \<noteq> []"
    by (metis set_empty)
  then obtain e r where r: "srt logCmp (logE s) = e # r"
    by (cases "srt logCmp (logE s)") auto
  have "e \<in> set (logE s)"
    using perm r by (metis list.set_intros(1))
  moreover have "lastLog srt s = Some e"
    by (simp add: lastLog_def r)
  moreover have "\<forall>x \<in> set (logE s). log_date x \<le> log_date e"
  proof
    fix x
    assume "x \<in> set (logE s)"
    then have "x = e \<or> x \<in> set r"
      using perm r by (metis set_ConsD)
    then show "log_date x \<le> log_date e"
      using desc r by auto
  qed
  ultimately show ?thesis by blast
qed

lemma lastLog_empty:
  assumes "set (srt logCmp (logE s)) = set (logE s)" and "logE s = []"
  shows "lastLog srt s = None"
  using assms by (simp add: lastLog_def)

text \<open>
  C7, as the code has it. The first two aggregates count the attempts that are active and
  not archived, and the active tanks. The third is the head of the engine's sort of the log
  under \<open>logCmp\<close>. For an engine whose result holds the entries of the log, in descending
  order of date: it is \<open>null\<close> for an empty log and otherwise an entry of the log whose
  date no entry exceeds; when one entry is later than every other, it is that one. Among
  several entries of the latest date the code does not fix the choice. Over an empty
  document the aggregates are zero, zero and \<open>null\<close>.
\<close>

theorem dashboard_aggregates:
  assumes perm: "set (srt logCmp (logE s)) = set (logE s)"
    and desc: "sorted_wrt (\<lambda>a b. \<not> log_date a < log_date b) (srt logCmp (logE s))"
  shows
    "activeAttempts s =
       card {i. i < length (attempts s) \<and>
                (attempt_active (attempts s ! i) \<and> \<not> attempt_archived (attempts s ! i))} \<and>
     activeTanks s = card {i. i < length (tanks s) \<and> tank_active (tanks s ! i)} \<and>
     (logE s = [] \<longrightarrow> lastLog srt s = None) \<and>
     (logE s \<noteq> [] \<longrightarrow>
        (\<exists>e \<in> set (logE s). lastLog srt s = Some e \<and> (\<forall>x \<in> set (logE s). log_date x \<le> log_date e))) \<and>
     (\<forall>e \<in> set (logE s).
        (\<forall>x \<in> set (logE s). x \<noteq> e \<longrightarrow> log_date x < log_date e) \<longrightarrow> lastLog srt s = Some e) \<and>
     (attempts s = [] \<and> tanks s = [] \<and> logE s = [] \<longrightarrow>
        activeAttempts s = 0 \<and> activeTanks s = 0 \<and> lastLog srt s = None)"
proof -
  have c1: "activeAttempts s =
       card {i. i < length (attempts s) \<and>
                (attempt_active (attempts s ! i) \<and> \<not> attempt_archived (attempts s ! i))}"
    unfolding activeAttempts_def by (rule length_filter_conv_card)
  have c2: "activeTanks s = card {i. i < length (tanks s) \<and> tank_active (tanks s ! i)}"
    unfolding activeTanks_def by (rule length_filter_conv_card)
  have l0: "logE s = [] \<longrightarrow> lastLog srt s = None"
    using lastLog_empty [of srt s] perm by blast
  have l1: "logE s \<noteq> [] \<longrightarrow>
        (\<exists>e \<in> set (logE s). lastLog srt s = Some e \<and> (\<forall>x \<in> set (logE s). log_date x \<le> log_date e))"
    using lastLog_first [of srt s] perm desc by blast
  have l2: "\<forall>e \<in> set (logE s).
        (\<forall>x \<in> set (logE s). x \<noteq> e \<longrightarrow> log_date x < log_date e) \<longrightarrow> lastLog srt s = Some e"
  proof (intro ballI impI)
    fix e
    assume e: "e \<in> set (logE s)"
      and top: "\<forall>x \<in> set (logE s). x \<noteq> e \<longrightarrow> log_date x < log_date e"
    from e have "logE s \<noteq> []" by auto
    with l1 obtain e' where e': "e' \<in> set (logE s)" "lastLog srt s = Some e'"
      and mx: "\<forall>x \<in> set (logE s). log_date x \<le> log_date e'"
      by blast
    have "e' = e"
    proof (rule ccontr)
      assume "e' \<noteq> e"
      with top e' have "log_date e' < log_date e" by blast
      moreover from mx e have "log_date e \<le> log_date e'" by blast
      ultimately show False by simp
    qed
    with e' show "lastLog srt s = Some e" by simp
  qed
  have z: "attempts s = [] \<and> tanks s = [] \<and> logE s = [] \<longrightarrow>
        activeAttempts s = 0 \<and> activeTanks s = 0 \<and> lastLog srt s = None"
    using l0 by (simp add: activeAttempts_def activeTanks_def)
  show ?thesis using c1 c2 l0 l1 l2 z by blast
qed

text \<open>
  On the seed document: one active attempt, two active tanks, a log of two entries. With
  the first entry moved to a later date it alone is the latest and is the one shown. With
  every collection emptied the aggregates are zero, zero and \<open>null\<close>.
\<close>

theorem dashboard_aggregates_witness:
  "set (sortFromLeft logCmp (logE seedSample)) = set (logE seedSample) \<and>
   sorted_wrt (\<lambda>a b. \<not> log_date a < log_date b) (sortFromLeft logCmp (logE seedSample)) \<and>
   logE seedSample \<noteq> [] \<and>
   activeAttempts seedSample = 1 \<and>
   card {i. i < length (attempts seedSample) \<and>
            (attempt_active (attempts seedSample ! i) \<and> \<not> attempt_archived (attempts seedSample ! i))} = 1 \<and>
   activeTanks seedSample = 2 \<and>
   card {i. i < length (tanks seedSample) \<and> tank_active (tanks seedSample ! i)} = 2 \<and>
   lastLog sortFromLeft seedSample \<noteq> None \<and>
   lastLog sortFromLeft
     (seedSample\<lparr>logE := [(logE seedSample ! 0)\<lparr>log_date := ''2025-01-20''\<rparr>, logE seedSample ! 1]\<rparr>)
     = Some ((logE seedSample ! 0)\<lparr>log_date := ''2025-01-20''\<rparr>) \<and>
   activeAttempts (seedSample\<lparr>tanks := [], attempts := [], logE := []\<rparr>) = 0 \<and>
   activeTanks (seedSample\<lparr>tanks := [], attempts := [], logE := []\<rparr>) = 0 \<and>
   lastLog sortFromLeft (seedSample\<lparr>tanks := [], attempts := [], logE := []\<rparr>) = None"
proof -
  let ?late = "(logE seedSample ! 0)\<lparr>log_date := ''2025-01-20''\<rparr>"
  let ?s1 = "seedSample\<lparr>logE := [?late, logE seedSample ! 1]\<rparr>"
  let ?s0 = "seedSample\<lparr>tanks := [], attempts := [], logE := []\<rparr>"
  note p = set_sortFromLeft [of logCmp] 
  note d = desc_sortFromLeft
  have ne: "logE seedSample \<noteq> []"
    by (simp add: sample_simps)
  have a: "activeAttempts seedSample = 1"
    by (simp add: activeAttempts_def sample_simps)
  have t: "activeTanks seedSample = 2"
    by (simp add: activeTanks_def sample_simps)
  have w: "lastLog sortFromLeft seedSample \<noteq> None"
    using dashboard_aggregates [of sortFromLeft seedSample] p d ne by fastforce
  have in1: "?late \<in> set (logE ?s1)"
    by simp
  have top: "\<forall>x \<in> set (logE ?s1). x \<noteq> ?late \<longrightarrow> log_date x < log_date ?late"
    by (simp add: sample_simps)
  have l: "lastLog sortFromLeft ?s1 = Some ?late"
    using dashboard_aggregates [of sortFromLeft ?s1] p [of "logE ?s1"] d [of "logE ?s1"] in1 top
    by blast
  have e: "attempts ?s0 = [] \<and> tanks ?s0 = [] \<and> logE ?s0 = []"
    by simp
  have z: "activeAttempts ?s0 = 0 \<and> activeTanks ?s0 = 0 \<and> lastLog sortFromLeft ?s0 = None"
    using dashboard_aggregates [of sortFromLeft ?s0] p [of "logE ?s0"] d [of "logE ?s0"] e
    by blast
  have c: "card {i. i < length (attempts seedSample) \<and>
            (attempt_active (attempts seedSample ! i) \<and> \<not> attempt_archived (attempts seedSample ! i))} = 1"
    "card {i. i < length (tanks seedSample) \<and> tank_active (tanks seedSample ! i)} = 2"
    using dashboard_aggregates [of sortFromLeft seedSample] p [of "logE seedSample"]
      d [of "logE seedSample"] a t by simp_all
  show ?thesis using p [of "logE seedSample"] d [of "logE seedSample"] ne a t w l z c by blast
qed

text \<open>
  The claim as stated fails. The two log entries of the seed document share their date.
  \<open>sortFromLeft\<close> returns them in descending order of date, with the second entry first,
  and the dashboard shows the second entry; the stable sort keeps the first entry first.
\<close>

theorem dashboard_tie_counterexample:
  "log_date (logE seedSample ! 0) = log_date (logE seedSample ! 1) \<and>
   sortFromLeft logCmp (logE seedSample) = [logE seedSample ! 1, logE seedSample ! 0] \<and>
   lastLog sortFromLeft seedSample = Some (logE seedSample ! 1) \<and>
   mostRecentStable seedSample = Some (logE seedSample ! 0) \<and>
   lastLog sortFromLeft seedSample \<noteq> mostRecentStable seedSample"
proof -
  have 1: "log_date (logE seedSample ! 0) = log_date (logE seedSample ! 1)"
    by (simp add: sample_simps)
  have 2: "sortFromLeft logCmp (logE seedSample) = [logE seedSample ! 1, logE seedSample ! 0]"
    by (simp add: sortFromLeft_def logCmp_def sample_simps)
  have 3: "lastLog sortFromLeft seedSample = Some (logE seedSample ! 1)"
    by (simp add: lastLog_def 2)
  have 4: "mostRecentStable seedSample = Some (logE seedSample ! 0)"
    by (simp add: mostRecentStable_def stableSortDesc_def sample_simps)
  have 5: "logE seedSample ! 1 \<noteq> logE seedSample ! 0"
    by (simp add: sample_simps)
  show ?thesis using 1 2 3 4 5 by simp
qed

section \<open>Numbers read from the forms\<close>

lemma parseNumOrNull_cases:
  "parseNumOrNull toNum s = None \<or> (\<exists>n. parseNumOrNull toNum s = Some n \<and> isFinite n)"
  by (simp add: parseNumOrNull_def Let_def)

lemma foldl_map_upd:
  "foldl (\<lambda>m k. m(k \<mapsto> f k)) m0 ps k = (if k \<in> set ps then Some (f k) else m0 k)"
  by (induction ps arbitrary: m0) auto

lemma payload_values_at:
  "payload_values (waterPayload toNum ps vals tankId date today note) k =
     (if k \<in> set ps
      then Some (parseNumOrNull toNum (case vals k of None \<Rightarrow> [] | Some v \<Rightarrow> v))
      else None)"
  by (simp add: waterPayload_def foldl_map_upd)

text \<open>
  C9. \<open>parseNumOrNull\<close> returns \<open>null\<close> or a finite number for every string, whatever the
  engine's \<open>Number\<close> makes of it. So in the payload of the water form every active
  parameter is \<open>null\<close> or a finite number and no other parameter is present, and \<open>addWater\<close>
  puts an entry with exactly these values at the head of the water list.
\<close>

theorem parseNumOrNull_finite:
  "(parseNumOrNull toNum s = None \<or> (\<exists>n. parseNumOrNull toNum s = Some n \<and> isFinite n)) \<and>
   (\<forall>k \<in> set ps. \<exists>v. payload_values (waterPayload toNum ps vals tankId date today note) k = Some v \<and>
      (v = None \<or> (\<exists>n. v = Some n \<and> isFinite n))) \<and>
   (\<forall>k. k \<notin> set ps \<longrightarrow> payload_values (waterPayload toNum ps vals tankId date today note) k = None) \<and>
   (\<exists>e. water (addWater (waterPayload toNum ps vals tankId date today note) newId st) = e # water st \<and>
      water_values e = payload_values (waterPayload toNum ps vals tankId date today note))"
proof -
  have "\<forall>k \<in> set ps. \<exists>v. payload_values (waterPayload toNum ps vals tankId date today note) k = Some v \<and>
      (v = None \<or> (\<exists>n. v = Some n \<and> isFinite n))"
    using parseNumOrNull_cases by (simp add: payload_values_at)
  moreover have "\<forall>k. k \<notin> set ps \<longrightarrow>
      payload_values (waterPayload toNum ps vals tankId date today note) k = None"
    by (simp add: payload_values_at)
  moreover have "\<exists>e. water (addWater (waterPayload toNum ps vals tankId date today note) newId st)
        = e # water st \<and>
      water_values e = payload_values (waterPayload toNum ps vals tankId date today note)"
    by (simp add: addWater_def)
  ultimately show ?thesis using parseNumOrNull_cases [of toNum s] by blast
qed

text \<open>
  The form of the first seed tank, with \<open>25,2\<close> typed for the temperature, \<open>abc\<close> for the
  pH and nothing else, under an engine that reads \<open>25.2\<close> as a number and \<open>abc\<close> as NaN.
\<close>

theorem parseNumOrNull_finite_witness:
  "activeParams (Some (tanks seedSample ! 0)) = [temp, ph, gh, kh, no2, no3] \<and>
   payload_values
     (waterPayload (\<lambda>t. if t = ''25.2'' then Fin (126 / 5) else NaN)
        (activeParams (Some (tanks seedSample ! 0))) [temp \<mapsto> ''25,2'', ph \<mapsto> ''abc'']
        ''id0'' ''2025-02-01'' ''2025-02-02'' []) temp = Some (Some (Fin (126 / 5))) \<and>
   payload_values
     (waterPayload (\<lambda>t. if t = ''25.2'' then Fin (126 / 5) else NaN)
        (activeParams (Some (tanks seedSample ! 0))) [temp \<mapsto> ''25,2'', ph \<mapsto> ''abc'']
        ''id0'' ''2025-02-01'' ''2025-02-02'' []) ph = Some None \<and>
   payload_values
     (waterPayload (\<lambda>t. if t = ''25.2'' then Fin (126 / 5) else NaN)
        (activeParams (Some (tanks seedSample ! 0))) [temp \<mapsto> ''25,2'', ph \<mapsto> ''abc'']
        ''id0'' ''2025-02-01'' ''2025-02-02'' []) tds = None"
proof -
  let ?N = "\<lambda>t. if t = ''25.2'' then Fin (126 / 5) else NaN"
  let ?ps = "activeParams (Some (tanks seedSample ! 0))"
  let ?p = "waterPayload ?N ?ps [temp \<mapsto> ''25,2'', ph \<mapsto> ''abc''] ''id0'' ''2025-02-01'' ''2025-02-02'' []"
  have ps: "?ps = [temp, ph, gh, kh, no2, no3]"
    by (simp add: activeParams_def ALL_PARAM_KEYS_def makeAllParams_def sample_simps)
  have t: "payload_values ?p temp = Some (Some (Fin (126 / 5)))"
    by (simp add: payload_values_at ps parseNumOrNull_def trim_def isWhiteSpace_def)
  have p: "payload_values ?p ph = Some None"
    by (simp add: payload_values_at ps parseNumOrNull_def trim_def isWhiteSpace_def)
  have "tds \<notin> set ?ps"
    by (simp add: ps)
  then have d: "payload_values ?p tds = None"
    using parseNumOrNull_finite [of ?N "''25,2''" ?ps "[temp \<mapsto> ''25,2'', ph \<mapsto> ''abc'']"
        "''id0''" "''2025-02-01''" "''2025-02-02''" "[]" "''w''" seedSample]
    by blast
  show ?thesis using ps t p d by blast
qed

section \<open>Decimal comma\<close>

lemma dropWhile_none: "\<forall>c \<in> set s. \<not> P c \<Longrightarrow> dropWhile P s = s"
  by (cases s) simp_all

lemma trim_no_space: "\<forall>c \<in> set s. \<not> isWhiteSpace c \<Longrightarrow> trim s = s"
  by (simp add: trim_def dropWhile_none)

lemma trim_only_space:
  assumes "\<forall>c \<in> set s. isWhiteSpace c"
  shows "trim s = []"
proof -
  have d: "dropWhile isWhiteSpace s = []"
    using assms by (induction s) simp_all
  show ?thesis unfolding trim_def d by simp
qed

lemma replaceFirst_absent: "a \<notin> set s \<Longrightarrow> replaceFirst a b s = s"
  by (induction s) auto

lemma replaceFirst_first: "a \<notin> set p \<Longrightarrow> replaceFirst a b (p @ a # s) = p @ b # s"
  by (induction p) auto

lemma digit_facts:
  assumes "c \<in> set ''0123456789''"
  shows "\<not> isWhiteSpace c" and "c \<noteq> CHR '',''"
  using assms by (auto simp: isWhiteSpace_def)

lemma comma_dot_no_space: "\<not> isWhiteSpace CHR '',''" "\<not> isWhiteSpace CHR ''.''"
  by (simp_all add: isWhiteSpace_def)

lemma digits_comma:
  assumes a: "set a \<subseteq> set ''0123456789''" and b: "set b \<subseteq> set ''0123456789''"
  shows "replaceFirst CHR '','' CHR ''.'' (trim (a @ '','' @ b)) = a @ ''.'' @ b"
    and "replaceFirst CHR '','' CHR ''.'' (trim (a @ ''.'' @ b)) = a @ ''.'' @ b"
proof -
  have na: "CHR '','' \<notin> set a" and nb: "CHR '','' \<notin> set b"
    using a b digit_facts(2) by blast+
  have wa: "\<forall>c \<in> set a. \<not> isWhiteSpace c" and wb: "\<forall>c \<in> set b. \<not> isWhiteSpace c"
    using a b digit_facts(1) by blast+
  have "trim (a @ '','' @ b) = a @ '','' @ b"
    using wa wb comma_dot_no_space by (intro trim_no_space) auto
  then show "replaceFirst CHR '','' CHR ''.'' (trim (a @ '','' @ b)) = a @ ''.'' @ b"
    using na by (simp add: replaceFirst_first)
  have t: "trim (a @ ''.'' @ b) = a @ ''.'' @ b"
    using wa wb comma_dot_no_space by (intro trim_no_space) auto
  have "CHR '','' \<notin> set (a @ ''.'' @ b)"
    using na nb by simp
  then have r: "replaceFirst CHR '','' CHR ''.'' (a @ ''.'' @ b) = a @ ''.'' @ b"
    by (rule replaceFirst_absent)
  show "replaceFirst CHR '','' CHR ''.'' (trim (a @ ''.'' @ b)) = a @ ''.'' @ b"
    by (simp only: t r)
qed

text \<open>
  C10. For digit strings \<open>a\<close> and \<open>b\<close>, \<open>parseNumOrNull\<close> of \<open>a,b\<close> is \<open>parseNumOrNull\<close> of
  \<open>a.b\<close>: the number the engine reads from \<open>a.b\<close> when that is finite, \<open>null\<close> otherwise.
  So \<open>25,2\<close> yields what the engine reads from \<open>25.2\<close>. A string of white space alone, the
  empty string among them, yields \<open>null\<close>. Only the first comma is replaced, and only the
  ends are trimmed.
\<close>

theorem parseNumOrNull_decimal_comma:
  "(set a \<subseteq> set ''0123456789'' \<and> set b \<subseteq> set ''0123456789'' \<longrightarrow>
      parseNumOrNull toNum (a @ '','' @ b) = parseNumOrNull toNum (a @ ''.'' @ b) \<and>
      parseNumOrNull toNum (a @ '','' @ b) =
        (if isFinite (toNum (a @ ''.'' @ b)) then Some (toNum (a @ ''.'' @ b)) else None)) \<and>
   parseNumOrNull toNum ''25,2'' = (if isFinite (toNum ''25.2'') then Some (toNum ''25.2'') else None) \<and>
   ((\<forall>c \<in> set s. isWhiteSpace c) \<longrightarrow> parseNumOrNull toNum s = None) \<and>
   parseNumOrNull toNum [] = None \<and>
   parseNumOrNull toNum '' 1,2,3 '' = (if isFinite (toNum ''1.2,3'') then Some (toNum ''1.2,3'') else None)"
proof -
  have d: "set a \<subseteq> set ''0123456789'' \<and> set b \<subseteq> set ''0123456789'' \<longrightarrow>
      parseNumOrNull toNum (a @ '','' @ b) = parseNumOrNull toNum (a @ ''.'' @ b) \<and>
      parseNumOrNull toNum (a @ '','' @ b) =
        (if isFinite (toNum (a @ ''.'' @ b)) then Some (toNum (a @ ''.'' @ b)) else None)"
  proof (intro impI)
    assume ab: "set a \<subseteq> set ''0123456789'' \<and> set b \<subseteq> set ''0123456789''"
    have c: "replaceFirst CHR '','' CHR ''.'' (trim (a @ CHR '','' # b)) = a @ CHR ''.'' # b"
      using digits_comma(1) [of a b] ab by simp
    have p: "replaceFirst CHR '','' CHR ''.'' (trim (a @ CHR ''.'' # b)) = a @ CHR ''.'' # b"
      using digits_comma(2) [of a b] ab by simp
    show "parseNumOrNull toNum (a @ '','' @ b) = parseNumOrNull toNum (a @ ''.'' @ b) \<and>
      parseNumOrNull toNum (a @ '','' @ b) =
        (if isFinite (toNum (a @ ''.'' @ b)) then Some (toNum (a @ ''.'' @ b)) else None)"
      by (simp add: parseNumOrNull_def Let_def c p)
  qed
  have e: "parseNumOrNull toNum ''25,2'' =
      (if isFinite (toNum ''25.2'') then Some (toNum ''25.2'') else None)"
    by (simp add: parseNumOrNull_def trim_def isWhiteSpace_def)
  have w: "(\<forall>c \<in> set s. isWhiteSpace c) \<longrightarrow> parseNumOrNull toNum s = None"
    by (simp add: parseNumOrNull_def trim_only_space)
  have n: "parseNumOrNull toNum [] = None"
    by (simp add: parseNumOrNull_def trim_def)
  have f: "parseNumOrNull toNum '' 1,2,3 '' =
      (if isFinite (toNum ''1.2,3'') then Some (toNum ''1.2,3'') else None)"
    by (simp add: parseNumOrNull_def trim_def isWhiteSpace_def)
  show ?thesis using d e w n f by blast
qed

text \<open>
  Under an engine that reads \<open>25.2\<close> as a number: \<open>25,2\<close> and \<open>25.2\<close> give that number, a
  string of a space, a tab and a no-break space gives \<open>null\<close>.
\<close>

theorem parseNumOrNull_decimal_comma_witness:
  "set ''25'' \<subseteq> set ''0123456789'' \<and> set ''2'' \<subseteq> set ''0123456789'' \<and>
   parseNumOrNull (\<lambda>t. if t = ''25.2'' then Fin (126 / 5) else NaN) ''25,2'' = Some (Fin (126 / 5)) \<and>
   parseNumOrNull (\<lambda>t. if t = ''25.2'' then Fin (126 / 5) else NaN) ''25.2'' = Some (Fin (126 / 5)) \<and>
   parseNumOrNull (\<lambda>t. if t = ''25.2'' then Fin (126 / 5) else NaN) [CHR '' '', CHR 0x09, CHR 0xA0] = None"
proof -
  let ?N = "\<lambda>t. if t = ''25.2'' then Fin (126 / 5) else NaN"
  have h: "set ''25'' \<subseteq> set ''0123456789''" "set ''2'' \<subseteq> set ''0123456789''"
    by simp_all
  have ws: "\<forall>c \<in> set [CHR '' '', CHR 0x09, CHR 0xA0]. isWhiteSpace c"
    by (simp add: isWhiteSpace_def)
  have i: "parseNumOrNull ?N ''25,2'' = (if isFinite (?N ''25.2'') then Some (?N ''25.2'') else None)"
    using parseNumOrNull_decimal_comma [of "''25''" "''2''" ?N "[CHR '' '', CHR 0x09, CHR 0xA0]"]
    by blast
  have 1: "parseNumOrNull ?N ''25,2'' = Some (Fin (126 / 5))"
    by (simp add: i)
  have j: "parseNumOrNull ?N (''25'' @ '','' @ ''2'') = parseNumOrNull ?N (''25'' @ ''.'' @ ''2'')"
    using parseNumOrNull_decimal_comma [of "''25''" "''2''" ?N "[CHR '' '', CHR 0x09, CHR 0xA0]"] h
    by blast
  have 2: "parseNumOrNull ?N ''25.2'' = Some (Fin (126 / 5))"
    using j 1 by simp
  have 3: "parseNumOrNull ?N [CHR '' '', CHR 0x09, CHR 0xA0] = None"
    using parseNumOrNull_decimal_comma [of "''25''" "''2''" ?N "[CHR '' '', CHR 0x09, CHR 0xA0]"] ws
    by blast
  show ?thesis using h 1 2 3 by blast
qed
section \<open>Loading the stored document\<close>






















lemma jsNumber_primitive:
  "\<not> (truthy v \<and> typeofObject v) \<Longrightarrow> \<exists>n. jsNumber toNum numStr v = Inr n"
  by (cases v) simp_all











end
